theory Spec2Isabelle
  imports Complex_Main "HOL-Library.Word"
begin

unbundle bit_operations_syntax

section \<open>Strings and bytes\<close>

text \<open>
  A Python \<open>str\<close> is modelled as a \<open>string\<close> whose characters are the code points
  0..255; \<open>bytes\<close> are lists of 8-bit words. \<open>s.encode("utf-8")\<close> maps a code point
  below 128 to one byte and a code point in 128..255 to two bytes; on this range it never
  raises.
\<close>

type_synonym byte = "8 word"
type_synonym bytes = "byte list"
type_synonym u32 = "32 word"

definition utf8_char :: "char \<Rightarrow> bytes" where
  "utf8_char c =
     (let n = (of_char c :: nat)
      in if n < 128 then [of_nat n]
         else [of_nat (192 + n div 64), of_nat (128 + n mod 64)])"

definition encode_utf8 :: "string \<Rightarrow> bytes" where
  "encode_utf8 s = concat (map utf8_char s)"

definition hexdigit :: "nat \<Rightarrow> char" where
  "hexdigit n = ''0123456789abcdef'' ! (n mod 16)"

definition hex_byte :: "byte \<Rightarrow> string" where
  "hex_byte b = [hexdigit (unat b div 16), hexdigit (unat b mod 16)]"

text \<open>\<open>bytes.hex()\<close> and \<open>hexdigest()\<close>: two lowercase hexadecimal digits per byte.\<close>

definition hex :: "bytes \<Rightarrow> string" where
  "hex bs = concat (map hex_byte bs)"

text \<open>\<open>sep.join(parts)\<close>\<close>

fun join :: "string \<Rightarrow> string list \<Rightarrow> string" where
  "join sep [] = []"
| "join sep [x] = x"
| "join sep (x # y # ys) = x @ sep @ join sep (y # ys)"

subsection \<open>Decimal rendering of integers: \<open>str(n)\<close>\<close>

definition digit_char :: "nat \<Rightarrow> char" where
  "digit_char n = ''0123456789'' ! (n mod 10)"

fun digits10 :: "nat \<Rightarrow> string" where
  "digits10 n = (if n < 10 then [digit_char n] else digits10 (n div 10) @ [digit_char n])"

declare digits10.simps [simp del]

definition str_int :: "int \<Rightarrow> string" where
  "str_int i = (if i < 0 then CHR ''-'' # digits10 (nat (- i)) else digits10 (nat i))"

text \<open>\<open>s.zfill(w)\<close> for a string of digits: zeros on the left up to width \<open>w\<close>.\<close>

definition zfill :: "nat \<Rightarrow> string \<Rightarrow> string" where
  "zfill w s = replicate (w - length s) CHR ''0'' @ s"

section \<open>\<open>hashlib.sha256\<close> (FIPS 180-4)\<close>

definition rotr :: "nat \<Rightarrow> u32 \<Rightarrow> u32" where
  "rotr n x = drop_bit n x OR push_bit (32 - n) x"

definition Ch :: "u32 \<Rightarrow> u32 \<Rightarrow> u32 \<Rightarrow> u32" where
  "Ch x y z = (x AND y) XOR (NOT x AND z)"

definition Maj :: "u32 \<Rightarrow> u32 \<Rightarrow> u32 \<Rightarrow> u32" where
  "Maj x y z = (x AND y) XOR (x AND z) XOR (y AND z)"

definition bsig0 :: "u32 \<Rightarrow> u32" where
  "bsig0 x = rotr 2 x XOR rotr 13 x XOR rotr 22 x"

definition bsig1 :: "u32 \<Rightarrow> u32" where
  "bsig1 x = rotr 6 x XOR rotr 11 x XOR rotr 25 x"

definition ssig0 :: "u32 \<Rightarrow> u32" where
  "ssig0 x = rotr 7 x XOR rotr 18 x XOR drop_bit 3 x"

definition ssig1 :: "u32 \<Rightarrow> u32" where
  "ssig1 x = rotr 17 x XOR rotr 19 x XOR drop_bit 10 x"

definition K256 :: "u32 list" where
  "K256 = [
  1116352408, 1899447441, 3049323471, 3921009573, 961987163, 1508970993, 2453635748, 2870763221,
  3624381080, 310598401, 607225278, 1426881987, 1925078388, 2162078206, 2614888103, 3248222580,
  3835390401, 4022224774, 264347078, 604807628, 770255983, 1249150122, 1555081692, 1996064986,
  2554220882, 2821834349, 2952996808, 3210313671, 3336571891, 3584528711, 113926993, 338241895,
  666307205, 773529912, 1294757372, 1396182291, 1695183700, 1986661051, 2177026350, 2456956037,
  2730485921, 2820302411, 3259730800, 3345764771, 3516065817, 3600352804, 4094571909, 275423344,
  430227734, 506948616, 659060556, 883997877, 958139571, 1322822218, 1537002063, 1747873779,
  1955562222, 2024104815, 2227730452, 2361852424, 2428436474, 2756734187, 3204031479, 3329325298]"

type_synonym sha_state = "u32 \<times> u32 \<times> u32 \<times> u32 \<times> u32 \<times> u32 \<times> u32 \<times> u32"

definition H0 :: sha_state where
  "H0 = (1779033703, 3144134277, 1013904242, 2773480762,
         1359893119, 2600822924, 528734635, 1541459225)"

text \<open>Big-endian 32-bit words of a block.\<close>

fun be32 :: "bytes \<Rightarrow> u32 list" where
  "be32 (a # b # c # d # r) =
     (push_bit 24 (ucast a) OR push_bit 16 (ucast b) OR push_bit 8 (ucast c) OR ucast d) # be32 r"
| "be32 _ = []"

text \<open>
  The message schedule: one new word per remaining round constant; the window holds the
  last sixteen words, newest first.
\<close>

fun schedule :: "u32 list \<Rightarrow> u32 list \<Rightarrow> u32 list" where
  "schedule [] win = []"
| "schedule (k # ks) win =
     (let w = ssig1 (win ! 1) + (win ! 6) + ssig0 (win ! 14) + (win ! 15)
      in w # schedule ks (w # butlast win))"

definition round_step :: "sha_state \<Rightarrow> u32 \<times> u32 \<Rightarrow> sha_state" where
  "round_step st kw =
     (case st of (a, b, c, d, e, f, g, h) \<Rightarrow> case kw of (k, w) \<Rightarrow>
        (let t1 = h + bsig1 e + Ch e f g + k + w;
             t2 = bsig0 a + Maj a b c
         in (t1 + t2, a, b, c, d + t1, e, f, g)))"

definition add_state :: "sha_state \<Rightarrow> sha_state \<Rightarrow> sha_state" where
  "add_state s t =
     (case s of (a, b, c, d, e, f, g, h) \<Rightarrow> case t of (a', b', c', d', e', f', g', h') \<Rightarrow>
        (a + a', b + b', c + c', d + d', e + e', f + f', g + g', h + h'))"

definition compress :: "sha_state \<Rightarrow> bytes \<Rightarrow> sha_state" where
  "compress hs block =
     (let w16 = be32 block;
          ws = w16 @ schedule (drop 16 K256) (rev w16)
      in add_state hs (foldl round_step hs (zip K256 ws)))"

text \<open>The length of the message in bits, as eight big-endian bytes.\<close>

definition be64 :: "int \<Rightarrow> bytes" where
  "be64 n = map (\<lambda>i. of_int (n div 256 ^ i)) [7, 6, 5, 4, 3, 2, 1, 0]"

definition pad :: "bytes \<Rightarrow> bytes" where
  "pad m =
     (let l = int (length m)
      in m @ [0x80] @ replicate (nat ((55 - l) mod 64)) 0 @ be64 (8 * l))"

text \<open>The padded message, 64 bytes at a time.\<close>

fun blocks :: "bytes \<Rightarrow> bytes \<Rightarrow> bytes list" where
  "blocks [] cur = (if cur = [] then [] else [rev cur])"
| "blocks (b # bs) cur =
     (if length cur = 63 then rev (b # cur) # blocks bs [] else blocks bs (b # cur))"

definition word_bytes :: "u32 \<Rightarrow> bytes" where
  "word_bytes w = [ucast (drop_bit 24 w), ucast (drop_bit 16 w), ucast (drop_bit 8 w), ucast w]"

definition state_bytes :: "sha_state \<Rightarrow> bytes" where
  "state_bytes st =
     (case st of (a, b, c, d, e, f, g, h) \<Rightarrow> concat (map word_bytes [a, b, c, d, e, f, g, h]))"

text \<open>\<open>hashlib.sha256(m).digest()\<close>\<close>

definition sha256 :: "bytes \<Rightarrow> bytes" where
  "sha256 m = state_bytes (foldl compress H0 (blocks (pad m) []))"

text \<open>\<open>hashlib.sha256(m).hexdigest()\<close>\<close>

definition sha256_hexdigest :: "bytes \<Rightarrow> string" where
  "sha256_hexdigest m = hex (sha256 m)"

section \<open>\<open>hmac.new(key, msg, hashlib.sha256)\<close> (RFC 2104)\<close>

definition hmac_key_block :: "bytes \<Rightarrow> bytes" where
  "hmac_key_block key =
     (let k = (if length key > 64 then sha256 key else key)
      in k @ replicate (64 - length k) 0)"

definition hmac_sha256 :: "bytes \<Rightarrow> bytes \<Rightarrow> bytes" where
  "hmac_sha256 key msg =
     (let kb = hmac_key_block key
      in sha256 (map (\<lambda>b. b XOR 0x5c) kb @ sha256 (map (\<lambda>b. b XOR 0x36) kb @ msg)))"

section \<open>\<open>datetime.utcfromtimestamp(t).strftime("%Y-%m-%d")\<close>\<close>

datatype error = TimestampOutOfRange

text \<open>
  \<open>_ord2ymd\<close> of the standard library's \<open>datetime\<close>: the proleptic Gregorian date of
  an ordinal, where 0001-01-01 is day 1.
\<close>

definition days_before_month :: "int list" where
  "days_before_month = [0, 0, 31, 59, 90, 120, 151, 181, 212, 243, 273, 304, 334]"

definition days_in_month :: "int list" where
  "days_in_month = [0, 31, 28, 31, 30, 31, 30, 31, 31, 30, 31, 30, 31]"

definition ord2ymd :: "int \<Rightarrow> int \<times> int \<times> int" where
  "ord2ymd ordinal =
     (let n = ordinal - 1;
          n400 = n div 146097; n = n mod 146097;
          year = n400 * 400 + 1;
          n100 = n div 36524; n = n mod 36524;
          n4 = n div 1461; n = n mod 1461;
          n1 = n div 365; n = n mod 365;
          year = year + n100 * 100 + n4 * 4 + n1
      in if n1 = 4 \<or> n100 = 4 then (year - 1, 12, 31)
         else
           (let leapyear = (n1 = 3 \<and> (n4 \<noteq> 24 \<or> n100 = 3));
                month = (n + 50) div 32;
                preceding = days_before_month ! nat month
                            + (if month > 2 \<and> leapyear then 1 else 0)
            in if preceding > n
               then (let month = month - 1;
                         preceding = preceding - (days_in_month ! nat month
                                       + (if month = 2 \<and> leapyear then 1 else 0))
                     in (year, month, n - preceding + 1))
               else (year, month, n - preceding + 1)))"

text \<open>
  \<open>utcfromtimestamp\<close> of an integer second count: the UTC calendar date of day
  \<open>t div 86400\<close> after 1970-01-01 (ordinal 719163). It raises when the year is outside
  1..9999. \<open>strftime("%Y-%m-%d")\<close> is the C library's: month and day are zero-filled
  to two digits, the year is printed in decimal with no fill, so that a year below 1000
  has fewer than four digits.
\<close>

definition utcfromtimestamp_date :: "int \<Rightarrow> error + int \<times> int \<times> int" where
  "utcfromtimestamp_date t =
     (if t < - 62135596800 \<or> 253402300799 < t then Inl TimestampOutOfRange
      else Inr (ord2ymd (719163 + t div 86400)))"

definition strftime_ymd :: "int \<times> int \<times> int \<Rightarrow> string" where
  "strftime_ymd ymd =
     (case ymd of (y, m, d) \<Rightarrow>
        str_int y @ ''-'' @ zfill 2 (str_int m) @ ''-'' @ zfill 2 (str_int d))"

section \<open>The request factory: \<open>BaseApiRequestFactory\<close>\<close>

text \<open>
  The attributes of an instance. \<open>__init__\<close> sets the five fixed values and the defaults
  of the five attributes that a subclass overrides.
\<close>

record api_request_factory =
  secret_id :: string
  secret_key :: string
  region :: string
  algorithm :: string
  canonical_uri :: string
  http_request_method :: string
  canonical_query_string :: string
  signed_headers :: string
  service :: string
  host :: string
  action :: string
  version :: string
  content_type :: string

definition init :: "string \<Rightarrow> string \<Rightarrow> string \<Rightarrow> api_request_factory" where
  "init sid skey reg =
     \<lparr> secret_id = sid, secret_key = skey, region = reg,
       algorithm = ''TC3-HMAC-SHA256'',
       canonical_uri = ''/'',
       http_request_method = ''POST'',
       canonical_query_string = [],
       signed_headers = ''content-type;host'',
       service = [], host = [], action = [], version = [],
       content_type = ''application/json'' \<rparr>"

text \<open>
  An instance of a subclass: the base initialiser, then the five attributes that the
  subclass sets for its API family.
\<close>

definition subclass_init ::
  "string \<Rightarrow> string \<Rightarrow> string \<Rightarrow> string \<Rightarrow> string \<Rightarrow> string \<Rightarrow> string \<Rightarrow> string
     \<Rightarrow> api_request_factory" where
  "subclass_init sid skey reg svc hst act ver ctype =
     (init sid skey reg)
       \<lparr> service := svc, host := hst, action := act, version := ver, content_type := ctype \<rparr>"

definition canonical_headers :: "api_request_factory \<Rightarrow> string" where
  "canonical_headers self =
     ''content-type:'' @ content_type self @ [CHR 0x0A] @ ''host:'' @ host self @ [CHR 0x0A]"

definition endpoint :: "api_request_factory \<Rightarrow> string" where
  "endpoint self = ''https://'' @ host self"

text \<open>\<open>__sign(key, msg).digest()\<close>\<close>

definition sign :: "bytes \<Rightarrow> string \<Rightarrow> bytes" where
  "sign key msg = hmac_sha256 key (encode_utf8 msg)"

text \<open>The local variables of \<open>__generate_authorization\<close>, in the order of the source.\<close>

definition canonical_request :: "api_request_factory \<Rightarrow> string \<Rightarrow> string" where
  "canonical_request self payload =
     http_request_method self @ [CHR 0x0A]
     @ canonical_uri self @ [CHR 0x0A]
     @ canonical_query_string self @ [CHR 0x0A]
     @ canonical_headers self @ [CHR 0x0A]
     @ signed_headers self @ [CHR 0x0A]
     @ sha256_hexdigest (encode_utf8 payload)"

definition now_date :: "int \<Rightarrow> error + string" where
  "now_date timestamp =
     (case utcfromtimestamp_date timestamp of
        Inl e \<Rightarrow> Inl e
      | Inr ymd \<Rightarrow> Inr (strftime_ymd ymd))"

definition credential_scope :: "api_request_factory \<Rightarrow> string \<Rightarrow> string" where
  "credential_scope self date = date @ ''/'' @ service self @ ''/'' @ ''tc3_request''"

definition signature_content :: "api_request_factory \<Rightarrow> int \<Rightarrow> string \<Rightarrow> string \<Rightarrow> string" where
  "signature_content self timestamp date payload =
     algorithm self @ [CHR 0x0A]
     @ str_int timestamp @ [CHR 0x0A]
     @ credential_scope self date @ [CHR 0x0A]
     @ sha256_hexdigest (encode_utf8 (canonical_request self payload))"

definition signature :: "api_request_factory \<Rightarrow> int \<Rightarrow> string \<Rightarrow> string \<Rightarrow> string" where
  "signature self timestamp date payload =
     (let secret_date = sign (encode_utf8 (''TC3'' @ secret_key self)) date;
          secret_service = sign secret_date (service self);
          secret_signing = sign secret_service ''tc3_request''
      in hex (sign secret_signing (signature_content self timestamp date payload)))"

definition generate_authorization :: "api_request_factory \<Rightarrow> int \<Rightarrow> string \<Rightarrow> error + string" where
  "generate_authorization self timestamp payload =
     (case now_date timestamp of
        Inl e \<Rightarrow> Inl e
      | Inr date \<Rightarrow>
          Inr (algorithm self @ '' Credential='' @ secret_id self @ ''/''
               @ credential_scope self date @ '', ''
               @ ''SignedHeaders='' @ signed_headers self
               @ '', Signature='' @ signature self timestamp date payload))"

section \<open>Payloads and \<open>json.dumps\<close>\<close>

text \<open>
  The values of a payload dictionary that \<open>json.dumps\<close> serialises: \<open>None\<close>, booleans,
  integers, strings, lists and dictionaries with string keys, in insertion order.
  Floating-point values are left out. A payload that holds anything else (an object with
  no encoder, a key that is a tuple, a dictionary that contains itself) makes
  \<open>json.dumps\<close> raise before anything is hashed; such a payload is no value of this type,
  and every statement below about a payload is about one that \<open>json.dumps\<close> accepts.
\<close>

datatype pyval =
    PNone
  | PBool bool
  | PInt int
  | PStr string
  | PList "pyval list"
  | PDict "(string \<times> pyval) list"

type_synonym payload = "(string \<times> pyval) list"

definition hex4 :: "nat \<Rightarrow> string" where
  "hex4 n = [hexdigit (n div 4096), hexdigit (n div 256), hexdigit (n div 16), hexdigit n]"

text \<open>
  \<open>py_encode_basestring_ascii\<close>: the default \<open>ensure_ascii=True\<close> escapes the quote,
  the backslash and every character outside the range from space to tilde.
\<close>

definition json_escape_char :: "char \<Rightarrow> string" where
  "json_escape_char c =
     (if c = CHR 0x5C then [CHR 0x5C, CHR 0x5C]
      else if c = CHR 0x22 then [CHR 0x5C, CHR 0x22]
      else if c = CHR 0x08 then [CHR 0x5C, CHR ''b'']
      else if c = CHR 0x0C then [CHR 0x5C, CHR ''f'']
      else if c = CHR 0x0A then [CHR 0x5C, CHR ''n'']
      else if c = CHR 0x0D then [CHR 0x5C, CHR ''r'']
      else if c = CHR 0x09 then [CHR 0x5C, CHR ''t'']
      else if (of_char c :: nat) < 32 \<or> 126 < (of_char c :: nat)
        then [CHR 0x5C, CHR ''u''] @ hex4 (of_char c)
      else [c])"

definition json_string :: "string \<Rightarrow> string" where
  "json_string s = [CHR 0x22] @ concat (map json_escape_char s) @ [CHR 0x22]"

fun json_dumps :: "pyval \<Rightarrow> string"
  and json_dumps_list :: "pyval list \<Rightarrow> string list"
  and json_dumps_items :: "(string \<times> pyval) list \<Rightarrow> string list" where
  "json_dumps PNone = ''null''"
| "json_dumps (PBool b) = (if b then ''true'' else ''false'')"
| "json_dumps (PInt i) = str_int i"
| "json_dumps (PStr s) = json_string s"
| "json_dumps (PList xs) = ''['' @ join '', '' (json_dumps_list xs) @ '']''"
| "json_dumps (PDict kvs) = ''{'' @ join '', '' (json_dumps_items kvs) @ ''}''"
| "json_dumps_list [] = []"
| "json_dumps_list (x # xs) = json_dumps x # json_dumps_list xs"
| "json_dumps_items [] = []"
| "json_dumps_items (kv # kvs) =
     (json_string (fst kv) @ '': '' @ json_dumps (snd kv)) # json_dumps_items kvs"

section \<open>The wall clock and \<open>__make_headers\<close>\<close>

text \<open>
  \<open>time.time()\<close> reads the wall clock. The world holds the values that successive reads
  return and the number of reads made so far; a read returns the next value and counts
  itself.
\<close>

record world =
  clock :: "nat \<Rightarrow> rat"
  reads :: nat

definition time_time :: "world \<Rightarrow> rat \<times> world" where
  "time_time w = (clock w (reads w), w\<lparr>reads := Suc (reads w)\<rparr>)"

text \<open>\<open>int(x)\<close> truncates towards zero.\<close>

definition py_int :: "rat \<Rightarrow> int" where
  "py_int x = (if 0 \<le> x then \<lfloor>x\<rfloor> else \<lceil>x\<rceil>)"

type_synonym headers = "(string \<times> string) list"

definition make_headers ::
  "api_request_factory \<Rightarrow> payload \<Rightarrow> world \<Rightarrow> (error + headers) \<times> world" where
  "make_headers self payload w =
     (case time_time w of (now, w') \<Rightarrow>
        (let timestamp = py_int now
         in (case generate_authorization self timestamp (json_dumps (PDict payload)) of
               Inl e \<Rightarrow> Inl e
             | Inr authorization \<Rightarrow>
                 Inr [(''Authorization'', authorization),
                      (''Content-Type'', content_type self),
                      (''Host'', host self),
                      (''X-TC-Action'', action self),
                      (''X-TC-Timestamp'', str_int timestamp),
                      (''X-TC-Version'', version self),
                      (''X-TC-Region'', region self),
                      (''X-TC-Language'', ''zh-CN'')]),
            w'))"

section \<open>The signing scheme as the specification words it\<close>

text \<open>
  The definitions of this section follow the specification's contracts (sections 4.1 to
  4.3), not the code; the theorems below compare the code with them.
\<close>

definition spec_canonical_request ::
  "string \<Rightarrow> string \<Rightarrow> string \<Rightarrow> string \<Rightarrow> string \<Rightarrow> bytes \<Rightarrow> string" where
  "spec_canonical_request method uri query headers_block signed_hdrs payload_bytes =
     join [CHR 0x0A] [method, uri, query, headers_block, signed_hdrs, hex (sha256 payload_bytes)]"

definition spec_credential_scope :: "string \<Rightarrow> string \<Rightarrow> string" where
  "spec_credential_scope date svc = date @ ''/'' @ svc @ ''/tc3_request''"

definition spec_string_to_sign :: "string \<Rightarrow> int \<Rightarrow> string \<Rightarrow> string \<Rightarrow> string" where
  "spec_string_to_sign algorithm_id timestamp scope request =
     join [CHR 0x0A]
       [algorithm_id, str_int timestamp, scope, hex (sha256 (encode_utf8 request))]"

definition spec_signing_key :: "string \<Rightarrow> string \<Rightarrow> string \<Rightarrow> bytes" where
  "spec_signing_key skey date svc =
     (let k_date = hmac_sha256 (encode_utf8 (''TC3'' @ skey)) (encode_utf8 date);
          k_service = hmac_sha256 k_date (encode_utf8 svc);
          k_signing = hmac_sha256 k_service (encode_utf8 ''tc3_request'')
      in k_signing)"

definition spec_signature :: "string \<Rightarrow> string \<Rightarrow> int \<Rightarrow> string \<Rightarrow> string \<Rightarrow> string \<Rightarrow> string" where
  "spec_signature algorithm_id skey timestamp date svc request =
     hex (hmac_sha256 (spec_signing_key skey date svc)
            (encode_utf8
               (spec_string_to_sign algorithm_id timestamp
                  (spec_credential_scope date svc) request)))"

definition spec_authorization ::
  "string \<Rightarrow> string \<Rightarrow> string \<Rightarrow> string \<Rightarrow> string \<Rightarrow> string" where
  "spec_authorization algorithm_id sid scope signed_hdrs sig =
     algorithm_id @ '' Credential='' @ sid @ ''/'' @ scope
     @ '', SignedHeaders='' @ signed_hdrs @ '', Signature='' @ sig"

text \<open>The timestamps that \<open>utcfromtimestamp\<close> accepts: the years 1 to 9999.\<close>

definition timestamp_ok :: "int \<Rightarrow> bool" where
  "timestamp_ok t \<longleftrightarrow> - 62135596800 \<le> t \<and> t \<le> 253402300799"

text \<open>The date that the signer derives from an accepted timestamp.\<close>

definition utc_date :: "int \<Rightarrow> string" where
  "utc_date t = strftime_ymd (ord2ymd (719163 + t div 86400))"

section \<open>\<open>send_request\<close> and the body that \<open>requests.post\<close> transmits\<close>

text \<open>
  \<open>send_request\<close> builds the headers and hands the payload dictionary to
  \<open>requests.post\<close>, as the keyword \<open>json\<close> when the content type of the instance is
  \<open>application/json\<close> and as the keyword \<open>data\<close> otherwise. The model ends with that
  call; the reading of the response is left out.
\<close>

datatype body_arg = JsonArg payload | DataArg payload

record post_call =
  post_url :: string
  post_headers :: headers
  post_body :: body_arg

definition send_request ::
  "api_request_factory \<Rightarrow> payload \<Rightarrow> world \<Rightarrow> (error + post_call) \<times> world" where
  "send_request self payload w =
     (case make_headers self payload w of (r, w') \<Rightarrow>
        (case r of
           Inl e \<Rightarrow> Inl e
         | Inr hdrs \<Rightarrow>
             Inr \<lparr> post_url = endpoint self, post_headers = hdrs,
                   post_body = (if content_type self = ''application/json''
                                then JsonArg payload else DataArg payload) \<rparr>,
         w'))"

subsection \<open>\<open>str\<close> and \<open>repr\<close> of a payload value\<close>

text \<open>
  \<open>repr\<close> of a string: single quotes, or double quotes when the string holds a single
  quote and no double quote; the quote in use and the backslash are escaped by a
  backslash, tab, newline and carriage return by their letters, and every other code
  point that is not printable (below 32, 127 to 160, and 173) as \<open>\xNN\<close>.
\<close>

definition repr_quote :: "string \<Rightarrow> char" where
  "repr_quote s =
     (if CHR 0x27 \<in> set s \<and> CHR 0x22 \<notin> set s then CHR 0x22 else CHR 0x27)"

definition repr_char :: "char \<Rightarrow> char \<Rightarrow> string" where
  "repr_char q c =
     (let n = (of_char c :: nat)
      in if c = q \<or> c = CHR 0x5C then [CHR 0x5C, c]
         else if c = CHR 0x09 then [CHR 0x5C, CHR ''t'']
         else if c = CHR 0x0A then [CHR 0x5C, CHR ''n'']
         else if c = CHR 0x0D then [CHR 0x5C, CHR ''r'']
         else if n < 32 \<or> (127 \<le> n \<and> n \<le> 160) \<or> n = 173
           then [CHR 0x5C, CHR ''x'', hexdigit (n div 16), hexdigit n]
         else [c])"

definition repr_str :: "string \<Rightarrow> string" where
  "repr_str s =
     (let q = repr_quote s in [q] @ concat (map (repr_char q) s) @ [q])"

fun py_repr :: "pyval \<Rightarrow> string"
  and py_repr_list :: "pyval list \<Rightarrow> string list"
  and py_repr_items :: "(string \<times> pyval) list \<Rightarrow> string list" where
  "py_repr PNone = ''None''"
| "py_repr (PBool b) = (if b then ''True'' else ''False'')"
| "py_repr (PInt i) = str_int i"
| "py_repr (PStr s) = repr_str s"
| "py_repr (PList xs) = ''['' @ join '', '' (py_repr_list xs) @ '']''"
| "py_repr (PDict kvs) = ''{'' @ join '', '' (py_repr_items kvs) @ ''}''"
| "py_repr_list [] = []"
| "py_repr_list (x # xs) = py_repr x # py_repr_list xs"
| "py_repr_items [] = []"
| "py_repr_items (kv # kvs) =
     (repr_str (fst kv) @ '': '' @ py_repr (snd kv)) # py_repr_items kvs"

text \<open>\<open>str(v)\<close>: a string is itself, every other value is its \<open>repr\<close>.\<close>

definition py_str :: "pyval \<Rightarrow> string" where
  "py_str v = (case v of PStr s \<Rightarrow> s | _ \<Rightarrow> py_repr v)"

subsection \<open>\<open>urllib.parse.quote_plus\<close> and \<open>urlencode\<close>\<close>

definition always_safe :: string where
  "always_safe = ''ABCDEFGHIJKLMNOPQRSTUVWXYZabcdefghijklmnopqrstuvwxyz0123456789_.-~''"

definition hexdigit_upper :: "nat \<Rightarrow> char" where
  "hexdigit_upper n = ''0123456789ABCDEF'' ! (n mod 16)"

text \<open>
  \<open>quote_plus\<close> with no further safe character, byte by byte: a letter, a digit or one
  of \<open>_.-~\<close> stands for itself, a space becomes a plus sign, and every other byte is a
  percent sign and two uppercase hexadecimal digits.
\<close>

definition quote_plus_byte :: "byte \<Rightarrow> string" where
  "quote_plus_byte b =
     (if char_of (unat b) \<in> set always_safe then [char_of (unat b)]
      else if b = 0x20 then ''+''
      else [CHR ''%'', hexdigit_upper (unat b div 16), hexdigit_upper (unat b)])"

definition quote_plus :: "bytes \<Rightarrow> string" where
  "quote_plus bs = concat (map quote_plus_byte bs)"

text \<open>
  \<open>RequestEncodingMixin._encode_params\<close> of a dictionary: a value that is a string or is
  not iterable stands for itself, a list for its elements, a dictionary for its keys;
  \<open>None\<close> is dropped. The result is the list of the pairs of key and value.
\<close>

definition param_values :: "pyval \<Rightarrow> pyval list" where
  "param_values vs =
     (case vs of
        PList xs \<Rightarrow> xs
      | PDict kvs \<Rightarrow> map (\<lambda>kv. PStr (fst kv)) kvs
      | _ \<Rightarrow> [vs])"

definition encode_params :: "payload \<Rightarrow> (string \<times> pyval) list" where
  "encode_params data =
     concat (map (\<lambda>kv. map (\<lambda>v. (fst kv, v)) (filter (\<lambda>v. v \<noteq> PNone) (param_values (snd kv))))
                 data)"

text \<open>
  \<open>urlencode(pairs, doseq=True)\<close>: one \<open>key=value\<close> field for a value that is a string or
  has no length, one field for each element of a value that has a length (a list gives
  its elements, a dictionary its keys); keys and values are quoted with \<open>quote_plus\<close>,
  a value that is no string after \<open>str\<close>; the fields are joined by \<open>&\<close>.
\<close>

definition urlencode_values :: "pyval \<Rightarrow> string list" where
  "urlencode_values v =
     (case v of
        PList elts \<Rightarrow> map py_str elts
      | PDict kvs \<Rightarrow> map fst kvs
      | _ \<Rightarrow> [py_str v])"

definition urlencode_fields :: "string \<times> pyval \<Rightarrow> string list" where
  "urlencode_fields kv =
     map (\<lambda>s. quote_plus (encode_utf8 (fst kv)) @ ''='' @ quote_plus (encode_utf8 s))
         (urlencode_values (snd kv))"

definition urlencode :: "(string \<times> pyval) list \<Rightarrow> string" where
  "urlencode query = join ''&'' (concat (map urlencode_fields query))"

text \<open>
  \<open>PreparedRequest.prepare_body\<close>: the bytes of the request body. The keyword \<open>json\<close>
  gives the UTF-8 bytes of \<open>json.dumps\<close> of the dictionary. The keyword \<open>data\<close> gives no
  body for an empty dictionary and the form encoding of the dictionary otherwise, a text
  of ASCII characters only.
\<close>

definition request_body :: "body_arg \<Rightarrow> bytes" where
  "request_body arg =
     (case arg of
        JsonArg p \<Rightarrow> encode_utf8 (json_dumps (PDict p))
      | DataArg p \<Rightarrow> (if p = [] then [] else encode_utf8 (urlencode (encode_params p))))"

text \<open>
  The bytes that \<open>send_request\<close> puts on the wire, and the bytes whose SHA-256 is the last
  line of the canonical request that \<open>__make_headers\<close> signs for the same payload.
\<close>

definition transmitted_body :: "api_request_factory \<Rightarrow> payload \<Rightarrow> world \<Rightarrow> error + bytes" where
  "transmitted_body self payload w =
     map_sum id (\<lambda>c. request_body (post_body c)) (fst (send_request self payload w))"

definition hashed_payload :: "payload \<Rightarrow> bytes" where
  "hashed_payload payload = encode_utf8 (json_dumps (PDict payload))"

text \<open>The characters of a form-encoded body.\<close>

definition form_alphabet :: string where
  "form_alphabet = always_safe @ ''+%=&''"

section \<open>Reference inputs\<close>

text \<open>
  The instance, payload and clock of the specification's round-trip scenario, used to
  instantiate the theorems below.
\<close>

definition cvm_factory :: api_request_factory where
  "cvm_factory =
     subclass_init ''AKIDEXAMPLE'' ''secret'' ''ap-guangzhou'' ''cvm''
       ''cvm.tencentcloudapi.com'' ''DescribeInstances'' ''2017-03-12'' ''application/json''"

definition limit_payload :: payload where
  "limit_payload = [(''Limit'', PInt 10), (''Offset'', PInt 0)]"

text \<open>A world whose clock shows the same instant at every read.\<close>

definition world_at :: "rat \<Rightarrow> world" where
  "world_at x = \<lparr> clock = (\<lambda>_. x), reads = 0 \<rparr>"

text \<open>The value of one header of a result of \<open>__make_headers\<close>.\<close>

definition header_value :: "string \<Rightarrow> error + headers \<Rightarrow> string option" where
  "header_value k r = (case r of Inl e \<Rightarrow> None | Inr h \<Rightarrow> map_of h k)"

text \<open>The integer second that \<open>__make_headers\<close> reads in a world.\<close>

definition timestamp_read :: "world \<Rightarrow> int" where
  "timestamp_read w = py_int (fst (time_time w))"

text \<open>
  An instance of a subclass for the second content type that the class documents, and a
  payload of one entry.
\<close>

definition form_factory :: api_request_factory where
  "form_factory =
     subclass_init ''AKIDEXAMPLE'' ''secret'' ''ap-guangzhou'' ''cvm''
       ''cvm.tencentcloudapi.com'' ''DescribeInstances'' ''2017-03-12'' ''multipart/form-data''"

definition limit_only :: payload where
  "limit_only = [(''Limit'', PInt 10)]"

section \<open>Evaluation lemmas\<close>

lemma now_date_ok: "timestamp_ok t \<Longrightarrow> now_date t = Inr (utc_date t)"
  by (simp add: now_date_def utcfromtimestamp_date_def timestamp_ok_def utc_date_def)

lemma now_date_raises: "\<not> timestamp_ok t \<Longrightarrow> now_date t = Inl TimestampOutOfRange"
  by (auto simp add: now_date_def utcfromtimestamp_date_def timestamp_ok_def)

lemma generate_authorization_ok:
  "timestamp_ok t \<Longrightarrow>
   generate_authorization self t p =
     Inr (algorithm self @ '' Credential='' @ secret_id self @ ''/''
          @ credential_scope self (utc_date t) @ '', ''
          @ ''SignedHeaders='' @ signed_headers self
          @ '', Signature='' @ signature self t (utc_date t) p)"
  by (simp add: generate_authorization_def now_date_ok)

lemma generate_authorization_raises:
  "\<not> timestamp_ok t \<Longrightarrow> generate_authorization self t p = Inl TimestampOutOfRange"
  by (simp add: generate_authorization_def now_date_raises)

lemma digits10_numeral:
  "digits10 (numeral k) =
     (if (numeral k :: nat) < 10 then [digit_char (numeral k)]
      else digits10 (numeral k div 10) @ [digit_char (numeral k)])"
  by (rule digits10.simps)

lemma digits10_0: "digits10 0 = ''0''"
  by (simp add: digits10.simps [of 0] digit_char_def)

lemma digits10_1: "digits10 (Suc 0) = ''1''"
  by (simp add: digits10.simps [of "Suc 0"] digit_char_def)

lemmas date_eval =
  utc_date_def strftime_ymd_def ord2ymd_def Let_def days_before_month_def
  days_in_month_def str_int_def zfill_def digits10_numeral digits10_0 digits10_1 digit_char_def
  timestamp_ok_def

lemma utc_date_1700000000: "utc_date 1700000000 = ''2023-11-14''"
  by (simp add: date_eval)

lemma utc_date_1704067199: "utc_date 1704067199 = ''2023-12-31''"
  by (simp add: date_eval)

lemma utc_date_1704067200: "utc_date 1704067200 = ''2024-01-01''"
  by (simp add: date_eval)

lemma str_int_1700000000: "str_int 1700000000 = ''1700000000''"
  by (simp add: date_eval)

lemma timestamp_ok_1700000000: "timestamp_ok 1700000000"
  by (simp add: timestamp_ok_def)

section \<open>The canonical request, the signature chain and the Authorization value\<close>

lemma cvm_factory_fields:
  "secret_id cvm_factory = ''AKIDEXAMPLE''"
  "secret_key cvm_factory = ''secret''"
  "region cvm_factory = ''ap-guangzhou''"
  "algorithm cvm_factory = ''TC3-HMAC-SHA256''"
  "canonical_uri cvm_factory = ''/''"
  "http_request_method cvm_factory = ''POST''"
  "canonical_query_string cvm_factory = []"
  "signed_headers cvm_factory = ''content-type;host''"
  "service cvm_factory = ''cvm''"
  "host cvm_factory = ''cvm.tencentcloudapi.com''"
  "action cvm_factory = ''DescribeInstances''"
  "version cvm_factory = ''2017-03-12''"
  "content_type cvm_factory = ''application/json''"
  by (simp_all add: cvm_factory_def subclass_init_def init_def)

lemma signature_eq_spec:
  "signature self t d p =
     spec_signature (algorithm self) (secret_key self) t d (service self)
       (canonical_request self p)"
  by (simp add: signature_def spec_signature_def spec_signing_key_def sign_def Let_def
      signature_content_def spec_string_to_sign_def spec_credential_scope_def
      credential_scope_def sha256_hexdigest_def)

lemma credential_scope_eq_spec:
  "credential_scope self d = spec_credential_scope d (service self)"
  by (simp add: credential_scope_def spec_credential_scope_def)

text \<open>
  Claim C1. For every secret key, service, payload and accepted timestamp, the signature
  that \<open>__generate_authorization\<close> emits after \<open>Signature=\<close> is the lowercase hex
  HMAC-SHA256 of the string to sign (algorithm id, decimal timestamp, credential scope
  and hex SHA-256 of the canonical request, joined by newlines), keyed by the chain
  k_date, k_service, k_signing, each step keyed by the raw digest of the step before.
\<close>

theorem signature_is_hmac_chain:
  "timestamp_ok t \<Longrightarrow>
   generate_authorization self t p =
     Inr (algorithm self @ '' Credential='' @ secret_id self @ ''/''
          @ spec_credential_scope (utc_date t) (service self)
          @ '', SignedHeaders='' @ signed_headers self
          @ '', Signature=''
          @ hex (hmac_sha256
                   (hmac_sha256
                      (hmac_sha256
                         (hmac_sha256 (encode_utf8 (''TC3'' @ secret_key self))
                            (encode_utf8 (utc_date t)))
                         (encode_utf8 (service self)))
                      (encode_utf8 ''tc3_request''))
                   (encode_utf8
                      (spec_string_to_sign (algorithm self) t
                         (spec_credential_scope (utc_date t) (service self))
                         (canonical_request self p)))))"
  by (simp add: generate_authorization_ok signature_eq_spec credential_scope_eq_spec
      spec_signature_def spec_signing_key_def Let_def)

theorem signature_is_hmac_chain_witness:
  "timestamp_ok 1700000000 \<and>
   generate_authorization cvm_factory 1700000000 (json_dumps (PDict limit_payload)) =
     Inr (''TC3-HMAC-SHA256 Credential=AKIDEXAMPLE/2023-11-14/cvm/tc3_request, ''
          @ ''SignedHeaders=content-type;host, Signature=''
          @ hex (hmac_sha256
                   (hmac_sha256
                      (hmac_sha256
                         (hmac_sha256 (encode_utf8 ''TC3secret'') (encode_utf8 ''2023-11-14''))
                         (encode_utf8 ''cvm''))
                      (encode_utf8 ''tc3_request''))
                   (encode_utf8
                      (spec_string_to_sign ''TC3-HMAC-SHA256'' 1700000000
                         ''2023-11-14/cvm/tc3_request''
                         (canonical_request cvm_factory (json_dumps (PDict limit_payload)))))))"
  using signature_is_hmac_chain [of 1700000000 cvm_factory "json_dumps (PDict limit_payload)"]
  by (simp add: timestamp_ok_1700000000 utc_date_1700000000 cvm_factory_fields
      spec_credential_scope_def)

text \<open>
  Claim C2. For every payload and host, the canonical request is the six components
  HTTP method, canonical URI, canonical query string, canonical headers block, signed
  headers and lowercase hex SHA-256 of the payload bytes, joined in that order by
  newlines; the method is POST, the URI is \<open>/\<close> and the query string is empty.
\<close>

theorem canonical_request_six_components:
  "canonical_request (subclass_init sid skey reg svc hst act ver ctype) p =
     spec_canonical_request ''POST'' ''/'' []
       (''content-type:'' @ ctype @ [CHR 0x0A] @ ''host:'' @ hst @ [CHR 0x0A])
       ''content-type;host''
       (encode_utf8 p)"
  by (simp add: canonical_request_def spec_canonical_request_def canonical_headers_def
      subclass_init_def init_def sha256_hexdigest_def)

text \<open>
  Claim C7. For every credentials, service descriptor, payload and accepted timestamp,
  the Authorization value is the algorithm id, a space, \<open>Credential=\<close> with the secret
  id, a slash and the credential scope, then \<open>, SignedHeaders=\<close> with the signed
  headers, then \<open>, Signature=\<close> with the signature.
\<close>

theorem authorization_format:
  "timestamp_ok t \<Longrightarrow>
   generate_authorization self t p =
     Inr (spec_authorization (algorithm self) (secret_id self)
            (credential_scope self (utc_date t)) (signed_headers self)
            (signature self t (utc_date t) p))"
  by (simp add: generate_authorization_ok spec_authorization_def)

theorem authorization_format_witness:
  "timestamp_ok 1700000000 \<and>
   generate_authorization cvm_factory 1700000000 (json_dumps (PDict limit_payload)) =
     Inr (spec_authorization ''TC3-HMAC-SHA256'' ''AKIDEXAMPLE'' ''2023-11-14/cvm/tc3_request''
            ''content-type;host''
            (signature cvm_factory 1700000000 ''2023-11-14''
               (json_dumps (PDict limit_payload))))"
  using authorization_format [of 1700000000 cvm_factory "json_dumps (PDict limit_payload)"]
  by (simp add: timestamp_ok_1700000000 utc_date_1700000000 cvm_factory_fields
      credential_scope_def)

section \<open>The header map\<close>

lemma time_time_reads: "snd (time_time w) = w\<lparr>reads := Suc (reads w)\<rparr>"
  by (simp add: time_time_def)

lemma make_headers_ok:
  "timestamp_ok (timestamp_read w) \<Longrightarrow>
   make_headers self payload w =
     (Inr [(''Authorization'',
            spec_authorization (algorithm self) (secret_id self)
              (credential_scope self (utc_date (timestamp_read w))) (signed_headers self)
              (signature self (timestamp_read w) (utc_date (timestamp_read w))
                 (json_dumps (PDict payload)))),
           (''Content-Type'', content_type self),
           (''Host'', host self),
           (''X-TC-Action'', action self),
           (''X-TC-Timestamp'', str_int (timestamp_read w)),
           (''X-TC-Version'', version self),
           (''X-TC-Region'', region self),
           (''X-TC-Language'', ''zh-CN'')],
      w\<lparr>reads := Suc (reads w)\<rparr>)"
  by (simp add: make_headers_def timestamp_read_def time_time_def Let_def
      generate_authorization_ok spec_authorization_def)

lemma make_headers_raises:
  "\<not> timestamp_ok (timestamp_read w) \<Longrightarrow>
   make_headers self payload w = (Inl TimestampOutOfRange, w\<lparr>reads := Suc (reads w)\<rparr>)"
  by (simp add: make_headers_def timestamp_read_def time_time_def Let_def
      generate_authorization_raises)

lemma timestamp_read_world_at: "timestamp_read (world_at x) = py_int x"
  by (simp add: timestamp_read_def world_at_def time_time_def)

lemma py_int_example: "py_int (17000000005 / 10) = 1700000000"
proof -
  have "\<lfloor>17000000005 / 10 :: rat\<rfloor> = 1700000000"
    by (rule floor_unique) simp_all
  then show ?thesis by (simp add: py_int_def)
qed

lemma timestamp_read_example: "timestamp_read (world_at (17000000005 / 10)) = 1700000000"
  by (simp only: timestamp_read_world_at py_int_example)

lemma digit_char_digit: "digit_char n \<in> set ''0123456789''"
proof -
  have "n mod 10 < length ''0123456789''" by simp
  then show ?thesis unfolding digit_char_def by (rule nth_mem)
qed

lemma digits10_digits: "set (digits10 n) \<subseteq> set ''0123456789''"
proof (induction n rule: digits10.induct)
  case (1 n)
  show ?case
  proof (cases "n < 10")
    case True
    then have "digits10 n = [digit_char n]" by (simp add: digits10.simps [of n])
    with digit_char_digit [of n] show ?thesis by simp
  next
    case False
    then have "digits10 n = digits10 (n div 10) @ [digit_char n]"
      by (simp add: digits10.simps [of n])
    with 1 False digit_char_digit [of n] show ?thesis by simp
  qed
qed

lemma str_int_chars: "set (str_int t) \<subseteq> set ''-0123456789''"
proof -
  have s: "set ''-0123456789'' = insert CHR ''-'' (set ''0123456789'')"
    by (simp only: list.set)
  show ?thesis
  proof (cases "t < 0")
    case True
    then have "str_int t = CHR ''-'' # digits10 (nat (- t))"
      by (simp add: str_int_def)
    then have "set (str_int t) = insert CHR ''-'' (set (digits10 (nat (- t))))"
      by (simp only: list.set)
    also have "\<dots> \<subseteq> insert CHR ''-'' (set ''0123456789'')"
      by (rule insert_mono) (rule digits10_digits)
    finally show ?thesis by (simp only: s)
  next
    case False
    then have "str_int t = digits10 (nat t)"
      by (simp add: str_int_def)
    then have "set (str_int t) \<subseteq> set ''0123456789''"
      by (simp only: digits10_digits)
    also have "\<dots> \<subseteq> insert CHR ''-'' (set ''0123456789'')"
      by (rule subset_insertI)
    finally show ?thesis by (simp only: s)
  qed
qed

text \<open>
  Claim C9. Whenever the clock shows an accepted timestamp, the header map has exactly
  the eight keys Authorization, Content-Type, Host, X-TC-Action, X-TC-Timestamp,
  X-TC-Version, X-TC-Region and X-TC-Language, each once: none is missing and there is
  no other.
\<close>

theorem make_headers_keys:
  "timestamp_ok (timestamp_read w) \<Longrightarrow>
   map_sum id (map fst) (fst (make_headers self payload w)) =
     Inr [''Authorization'', ''Content-Type'', ''Host'', ''X-TC-Action'', ''X-TC-Timestamp'',
          ''X-TC-Version'', ''X-TC-Region'', ''X-TC-Language'']"
  by (simp add: make_headers_ok)

theorem make_headers_keys_witness:
  "timestamp_ok (timestamp_read (world_at (17000000005 / 10))) \<and>
   map_sum id (map fst)
     (fst (make_headers cvm_factory limit_payload (world_at (17000000005 / 10)))) =
     Inr [''Authorization'', ''Content-Type'', ''Host'', ''X-TC-Action'', ''X-TC-Timestamp'',
          ''X-TC-Version'', ''X-TC-Region'', ''X-TC-Language'']"
proof -
  have ok: "timestamp_ok (timestamp_read (world_at (17000000005 / 10)))"
    by (simp only: timestamp_read_example timestamp_ok_1700000000)
  from ok make_headers_keys [OF ok, of cvm_factory limit_payload] show ?thesis
    by (rule conjI)
qed

text \<open>
  Claim C10. For every credentials, service descriptor, payload and accepted timestamp,
  the value of X-TC-Language is \<open>zh-CN\<close>; the signed headers of an instance are
  \<open>content-type;host\<close>, this is the SignedHeaders component of the Authorization value,
  and the canonical headers block that is signed holds the content-type line and the
  host line and nothing else.
\<close>

theorem language_and_signed_headers_fixed:
  "timestamp_ok (timestamp_read w) \<Longrightarrow>
   self = subclass_init sid skey reg svc hst act ver ctype \<Longrightarrow>
   header_value ''X-TC-Language'' (fst (make_headers self payload w)) = Some ''zh-CN'' \<and>
   signed_headers self = ''content-type;host'' \<and>
   canonical_headers self
     = ''content-type:'' @ ctype @ [CHR 0x0A] @ ''host:'' @ hst @ [CHR 0x0A] \<and>
   header_value ''Authorization'' (fst (make_headers self payload w)) =
     Some (spec_authorization ''TC3-HMAC-SHA256'' sid
             (credential_scope self (utc_date (timestamp_read w)))
             ''content-type;host''
             (signature self (timestamp_read w) (utc_date (timestamp_read w))
                (json_dumps (PDict payload))))"
  by (simp add: make_headers_ok header_value_def subclass_init_def init_def
      canonical_headers_def)

theorem language_and_signed_headers_fixed_witness:
  "timestamp_ok (timestamp_read (world_at (17000000005 / 10))) \<and>
   cvm_factory = subclass_init ''AKIDEXAMPLE'' ''secret'' ''ap-guangzhou'' ''cvm''
       ''cvm.tencentcloudapi.com'' ''DescribeInstances'' ''2017-03-12'' ''application/json'' \<and>
   header_value ''X-TC-Language''
     (fst (make_headers cvm_factory limit_payload (world_at (17000000005 / 10))))
     = Some ''zh-CN'' \<and>
   signed_headers cvm_factory = ''content-type;host'' \<and>
   canonical_headers cvm_factory
     = ''content-type:application/json'' @ [CHR 0x0A]
       @ ''host:cvm.tencentcloudapi.com'' @ [CHR 0x0A]"
proof -
  have ok: "timestamp_ok (timestamp_read (world_at (17000000005 / 10)))"
    by (simp only: timestamp_read_example timestamp_ok_1700000000)
  from language_and_signed_headers_fixed [OF ok cvm_factory_def, of limit_payload] ok
  show ?thesis by (simp add: cvm_factory_def)
qed

text \<open>
  Claim C8. Every call of \<open>__make_headers\<close> reads the clock exactly once. The integer
  second of that read is the timestamp line of the string to sign and the timestamp
  from which the date of the credential scope and of the key chain is derived, and its
  decimal rendering, digits with no fraction, is the value of X-TC-Timestamp.
\<close>

theorem one_timestamp_signed_and_emitted:
  "timestamp_ok (timestamp_read w) \<Longrightarrow>
   t = timestamp_read w \<Longrightarrow>
   p = json_dumps (PDict payload) \<Longrightarrow>
   reads (snd (make_headers self payload w)) = Suc (reads w) \<and>
   clock (snd (make_headers self payload w)) = clock w \<and>
   t = py_int (clock w (reads w)) \<and>
   header_value ''X-TC-Timestamp'' (fst (make_headers self payload w)) = Some (str_int t) \<and>
   set (str_int t) \<subseteq> set ''-0123456789'' \<and>
   header_value ''Authorization'' (fst (make_headers self payload w)) =
     Some (spec_authorization (algorithm self) (secret_id self)
             (credential_scope self (utc_date t)) (signed_headers self)
             (hex (sign (spec_signing_key (secret_key self) (utc_date t) (service self))
                     (join [CHR 0x0A]
                        [algorithm self, str_int t, credential_scope self (utc_date t),
                         sha256_hexdigest (encode_utf8 (canonical_request self p))]))))"
proof -
  assume ok: "timestamp_ok (timestamp_read w)"
    and t: "t = timestamp_read w"
    and p: "p = json_dumps (PDict payload)"
  note h = make_headers_ok [OF ok, of self payload]
  have r: "reads (snd (make_headers self payload w)) = Suc (reads w)"
    by (simp add: h)
  have c: "clock (snd (make_headers self payload w)) = clock w"
    by (simp add: h)
  have e: "t = py_int (clock w (reads w))"
    by (simp add: t timestamp_read_def time_time_def)
  have x: "header_value ''X-TC-Timestamp'' (fst (make_headers self payload w)) = Some (str_int t)"
    by (simp add: h header_value_def t)
  have a: "header_value ''Authorization'' (fst (make_headers self payload w)) =
     Some (spec_authorization (algorithm self) (secret_id self)
             (credential_scope self (utc_date t)) (signed_headers self)
             (hex (sign (spec_signing_key (secret_key self) (utc_date t) (service self))
                     (join [CHR 0x0A]
                        [algorithm self, str_int t, credential_scope self (utc_date t),
                         sha256_hexdigest (encode_utf8 (canonical_request self p))]))))"
    by (simp add: h header_value_def t p signature_def spec_signing_key_def sign_def Let_def
        signature_content_def)
  from r c e x str_int_chars [of t] a show ?thesis by blast
qed

theorem one_timestamp_signed_and_emitted_witness:
  "timestamp_ok (timestamp_read (world_at (17000000005 / 10))) \<and>
   1700000000 = timestamp_read (world_at (17000000005 / 10)) \<and>
   reads (snd (make_headers cvm_factory limit_payload (world_at (17000000005 / 10)))) = 1 \<and>
   header_value ''X-TC-Timestamp''
     (fst (make_headers cvm_factory limit_payload (world_at (17000000005 / 10))))
     = Some ''1700000000''"
proof -
  have ok: "timestamp_ok (timestamp_read (world_at (17000000005 / 10)))"
    by (simp only: timestamp_read_example timestamp_ok_1700000000)
  have t: "1700000000 = timestamp_read (world_at (17000000005 / 10))"
    by (simp only: timestamp_read_example)
  from one_timestamp_signed_and_emitted [OF ok t refl, of cvm_factory limit_payload] ok t
  show ?thesis by (simp add: str_int_1700000000 world_at_def)
qed

section \<open>The clock is read inside the signer\<close>

lemma py_int_whole: "py_int 1700000000 = 1700000000" "py_int 1700000001 = 1700000001"
  by (simp_all add: py_int_def)

lemma timestamp_read_whole:
  "timestamp_read (world_at 1700000000) = 1700000000"
  "timestamp_read (world_at 1700000001) = 1700000001"
  by (simp_all only: timestamp_read_world_at py_int_whole)

lemma timestamp_ok_1700000001: "timestamp_ok 1700000001"
  by (simp add: timestamp_ok_def)

lemma str_int_1700000001: "str_int 1700000001 = ''1700000001''"
  by (simp add: date_eval)

lemma timestamp_header_at_1700000000:
  "header_value ''X-TC-Timestamp'' (fst (make_headers self payload (world_at 1700000000)))
     = Some ''1700000000''"
proof -
  have ok: "timestamp_ok (timestamp_read (world_at 1700000000))"
    by (simp only: timestamp_read_whole timestamp_ok_1700000000)
  show ?thesis
    by (simp add: make_headers_ok [OF ok] header_value_def timestamp_read_whole
        str_int_1700000000)
qed

lemma timestamp_header_at_1700000001:
  "header_value ''X-TC-Timestamp'' (fst (make_headers self payload (world_at 1700000001)))
     = Some ''1700000001''"
proof -
  have ok: "timestamp_ok (timestamp_read (world_at 1700000001))"
    by (simp only: timestamp_read_whole timestamp_ok_1700000001)
  show ?thesis
    by (simp add: make_headers_ok [OF ok] header_value_def timestamp_read_whole
        str_int_1700000001)
qed

text \<open>
  Claim C3, as stated, fails: the caller of \<open>__make_headers\<close> supplies the payload only,
  and the method reads the wall clock itself. The same instance and the same payload,
  signed once when the clock shows 1700000000 and once a second later, give different
  header maps.
\<close>

theorem same_inputs_different_headers:
  "fst (make_headers cvm_factory limit_payload (world_at 1700000000))
     \<noteq> fst (make_headers cvm_factory limit_payload (world_at 1700000001))"
proof
  assume "fst (make_headers cvm_factory limit_payload (world_at 1700000000))
            = fst (make_headers cvm_factory limit_payload (world_at 1700000001))"
  then have "header_value ''X-TC-Timestamp''
               (fst (make_headers cvm_factory limit_payload (world_at 1700000000)))
             = header_value ''X-TC-Timestamp''
               (fst (make_headers cvm_factory limit_payload (world_at 1700000001)))"
    by (rule arg_cong)
  then have "Some ''1700000000'' = Some ''1700000001''"
    by (simp only: timestamp_header_at_1700000000 timestamp_header_at_1700000001)
  then show False by simp
qed

text \<open>
  Claim C3, amended. The header map is a function of the instance, the payload and the
  integer second that \<open>__make_headers\<close> reads from the wall clock: two calls with the
  same instance and payload whose clock reads fall in the same second return the same
  result, whatever else differs between the two worlds.
\<close>

theorem headers_determined_by_clock_second:
  "timestamp_read w1 = timestamp_read w2 \<Longrightarrow>
   fst (make_headers self payload w1) = fst (make_headers self payload w2)"
proof (cases "timestamp_ok (timestamp_read w1)")
  case True
  assume eq: "timestamp_read w1 = timestamp_read w2"
  from True eq have ok2: "timestamp_ok (timestamp_read w2)" by simp
  show ?thesis
    by (simp add: make_headers_ok [OF True] make_headers_ok [OF ok2] eq)
next
  case False
  assume eq: "timestamp_read w1 = timestamp_read w2"
  from False eq have bad2: "\<not> timestamp_ok (timestamp_read w2)" by simp
  show ?thesis
    by (simp add: make_headers_raises [OF False] make_headers_raises [OF bad2])
qed

theorem headers_determined_by_clock_second_witness:
  "timestamp_read (world_at 1700000000) = timestamp_read (world_at (17000000005 / 10)) \<and>
   world_at 1700000000 \<noteq> world_at (17000000005 / 10) \<and>
   fst (make_headers cvm_factory limit_payload (world_at 1700000000))
     = fst (make_headers cvm_factory limit_payload (world_at (17000000005 / 10)))"
proof -
  have eq: "timestamp_read (world_at 1700000000) = timestamp_read (world_at (17000000005 / 10))"
    by (simp only: timestamp_read_whole timestamp_read_example)
  have ne: "world_at 1700000000 \<noteq> world_at (17000000005 / 10)"
  proof
    assume "world_at 1700000000 = world_at (17000000005 / 10)"
    then have "clock (world_at 1700000000) 0 = clock (world_at (17000000005 / 10)) 0"
      by (rule arg_cong)
    then show False by (simp add: world_at_def)
  qed
  from eq ne headers_determined_by_clock_second [OF eq, of cvm_factory limit_payload]
  show ?thesis by blast
qed

section \<open>No validation of the service descriptor\<close>




section \<open>The bytes that are hashed and the bytes that are sent\<close>

lemma send_request_ok:
  "timestamp_ok (timestamp_read w) \<Longrightarrow>
   fst (send_request self payload w) =
     Inr \<lparr> post_url = endpoint self,
           post_headers = projr (fst (make_headers self payload w)),
           post_body = (if content_type self = ''application/json''
                        then JsonArg payload else DataArg payload) \<rparr>"
  by (simp add: send_request_def make_headers_ok)

lemma send_request_raises:
  "\<not> timestamp_ok (timestamp_read w) \<Longrightarrow>
   fst (send_request self payload w) = Inl TimestampOutOfRange"
  by (simp add: send_request_def make_headers_raises)

lemma canonical_request_hashes_json:
  "canonical_request self (json_dumps (PDict payload)) =
     spec_canonical_request (http_request_method self) (canonical_uri self)
       (canonical_query_string self) (canonical_headers self) (signed_headers self)
       (hashed_payload payload)"
  by (simp add: canonical_request_def spec_canonical_request_def hashed_payload_def
      sha256_hexdigest_def)

lemma transmitted_body_json:
  "timestamp_ok (timestamp_read w) \<Longrightarrow> content_type self = ''application/json'' \<Longrightarrow>
   transmitted_body self payload w = Inr (hashed_payload payload)"
  by (simp add: transmitted_body_def send_request_ok request_body_def hashed_payload_def)

lemma transmitted_body_data:
  "timestamp_ok (timestamp_read w) \<Longrightarrow> content_type self \<noteq> ''application/json'' \<Longrightarrow>
   transmitted_body self payload w =
     Inr (if payload = [] then [] else encode_utf8 (urlencode (encode_params payload)))"
  by (simp add: transmitted_body_def send_request_ok request_body_def)

lemma str_int_10: "str_int 10 = ''10''"
  by (simp add: date_eval)

lemma hashed_payload_limit_only:
  "hashed_payload limit_only
     = encode_utf8 (''{'' @ [CHR 0x22] @ ''Limit'' @ [CHR 0x22] @ '': 10}'')"
  by (simp add: hashed_payload_def limit_only_def json_string_def json_escape_char_def
      str_int_10)

lemma quote_plus_Limit: "quote_plus (encode_utf8 ''Limit'') = ''Limit''"
  by (simp add: quote_plus_def quote_plus_byte_def encode_utf8_def utf8_char_def
      always_safe_def char_of_def bit_Suc_0_iff)

lemma quote_plus_10: "quote_plus (encode_utf8 ''10'') = ''10''"
  by (simp add: quote_plus_def quote_plus_byte_def encode_utf8_def utf8_char_def
      always_safe_def char_of_def bit_Suc_0_iff)

lemma urlencode_limit_only: "urlencode (encode_params limit_only) = ''Limit=10''"
  by (simp add: urlencode_def encode_params_def limit_only_def param_values_def
      urlencode_fields_def urlencode_values_def py_str_def str_int_10
      quote_plus_Limit quote_plus_10)

lemma content_type_form_factory: "content_type form_factory = ''multipart/form-data''"
  by (simp add: form_factory_def subclass_init_def init_def)
lemma hexdigit_upper_mem: "hexdigit_upper n \<in> set ''0123456789ABCDEF''"
proof -
  have "n mod 16 < length ''0123456789ABCDEF''" by simp
  then show ?thesis unfolding hexdigit_upper_def by (rule nth_mem)
qed

lemma always_safe_hex_upper: "set ''0123456789ABCDEF'' \<subseteq> set form_alphabet"
  by (simp add: form_alphabet_def always_safe_def)

lemma always_safe_form_alphabet: "set always_safe \<subseteq> set form_alphabet"
  by (auto simp add: form_alphabet_def)

lemma form_alphabet_marks: "CHR ''+'' \<in> set form_alphabet" "CHR ''%'' \<in> set form_alphabet"
  "CHR ''='' \<in> set form_alphabet" "CHR ''&'' \<in> set form_alphabet"
  by (simp_all add: form_alphabet_def)

lemma hexdigit_upper_alphabet: "hexdigit_upper n \<in> set form_alphabet"
  by (rule subsetD [OF always_safe_hex_upper hexdigit_upper_mem])

lemma quote_plus_byte_alphabet: "set (quote_plus_byte b) \<subseteq> set form_alphabet"
proof (cases "char_of (unat b) \<in> set always_safe")
  case True
  then have "quote_plus_byte b = [char_of (unat b)]"
    by (simp add: quote_plus_byte_def)
  moreover from True have "char_of (unat b) \<in> set form_alphabet"
    by (rule subsetD [OF always_safe_form_alphabet])
  ultimately show ?thesis by simp
next
  case unsafe: False
  show ?thesis
  proof (cases "b = 0x20")
    case True
    with unsafe have "quote_plus_byte b = ''+''"
      by (simp add: quote_plus_byte_def)
    with form_alphabet_marks(1) show ?thesis by simp
  next
    case False
    with unsafe have "quote_plus_byte b =
        [CHR ''%'', hexdigit_upper (unat b div 16), hexdigit_upper (unat b)]"
      by (simp add: quote_plus_byte_def)
    with form_alphabet_marks(2) hexdigit_upper_alphabet show ?thesis by simp
  qed
qed

lemma quote_plus_alphabet: "set (quote_plus bs) \<subseteq> set form_alphabet"
  using quote_plus_byte_alphabet by (auto simp add: quote_plus_def)

lemma set_join: "set (join sep xs) \<subseteq> set sep \<union> \<Union> (set ` set xs)"
  by (induction sep xs rule: join.induct) auto

lemma urlencode_alphabet: "set (urlencode q) \<subseteq> set form_alphabet"
proof -
  have f: "set x \<subseteq> set form_alphabet" if "x \<in> set (urlencode_fields kv)" for x kv
    using that quote_plus_alphabet [THEN subsetD] form_alphabet_marks by (auto simp add: urlencode_fields_def)
  have "set (urlencode q) \<subseteq> set ''&'' \<union> \<Union> (set ` set (concat (map urlencode_fields q)))"
    unfolding urlencode_def by (rule set_join)
  also have "\<dots> \<subseteq> set form_alphabet"
    using f form_alphabet_marks by auto
  finally show ?thesis .
qed

lemma form_alphabet_bytes: "\<forall>c \<in> set form_alphabet. utf8_char c \<noteq> [] \<and> 0x7B \<notin> set (utf8_char c)"
  by (simp add: form_alphabet_def always_safe_def utf8_char_def)

lemma form_bytes_no_brace: "0x7B \<notin> set (encode_utf8 (urlencode q))"
  using urlencode_alphabet [of q] form_alphabet_bytes
  by (auto simp add: encode_utf8_def)

lemma hashed_payload_brace: "hashed_payload payload = 0x7B # tl (hashed_payload payload)"
  by (simp add: hashed_payload_def encode_utf8_def utf8_char_def)

lemma data_body_never_hashed_payload:
  "timestamp_ok (timestamp_read w) \<Longrightarrow> content_type self \<noteq> ''application/json'' \<Longrightarrow>
   transmitted_body self payload w \<noteq> Inr (hashed_payload payload)"
proof -
  assume ok: "timestamp_ok (timestamp_read w)"
    and ct: "content_type self \<noteq> ''application/json''"
  have b: "0x7B \<in> set (hashed_payload payload)"
    by (subst hashed_payload_brace) simp
  have "0x7B \<notin> set (if payload = [] then [] else encode_utf8 (urlencode (encode_params payload)))"
    using form_bytes_no_brace by simp
  with b have "(if payload = [] then [] else encode_utf8 (urlencode (encode_params payload)))
                 \<noteq> hashed_payload payload"
    by auto
  then show ?thesis
    by (simp add: transmitted_body_data [OF ok ct])
qed
lemma authorization_of_post_call:
  "timestamp_ok (timestamp_read w) \<Longrightarrow>
   header_value ''Authorization'' (map_sum id post_headers (fst (send_request self payload w))) =
     Some (spec_authorization (algorithm self) (secret_id self)
             (credential_scope self (utc_date (timestamp_read w))) (signed_headers self)
             (signature self (timestamp_read w) (utc_date (timestamp_read w))
                (json_dumps (PDict payload))))"
  by (simp add: send_request_ok make_headers_ok header_value_def)

text \<open>
  Claim C4 does not hold of the code. \<open>__make_headers\<close> hashes the UTF-8 bytes of
  \<open>json.dumps(payload)\<close> whatever the content type is, and \<open>send_request\<close> passes the
  dictionary as \<open>data\<close> when the content type is not \<open>application/json\<close>, which
  \<open>requests\<close> transmits form-encoded. For the instance with the content type
  \<open>multipart/form-data\<close> and the payload \<open>{"Limit": 10}\<close>, the body sent is \<open>Limit=10\<close>,
  while the last line of the canonical request behind the Authorization header of the
  same call is the SHA-256 of \<open>{"Limit": 10}\<close>.
\<close>

theorem form_body_is_not_the_hashed_payload:
  "transmitted_body form_factory limit_only (world_at 1700000000)
     = Inr (encode_utf8 ''Limit=10'') \<and>
   hashed_payload limit_only
     = encode_utf8 (''{'' @ [CHR 0x22] @ ''Limit'' @ [CHR 0x22] @ '': 10}'') \<and>
   header_value ''Authorization''
     (map_sum id post_headers (fst (send_request form_factory limit_only (world_at 1700000000))))
     = Some (spec_authorization ''TC3-HMAC-SHA256'' ''AKIDEXAMPLE''
               ''2023-11-14/cvm/tc3_request'' ''content-type;host''
               (signature form_factory 1700000000 ''2023-11-14''
                  (json_dumps (PDict limit_only)))) \<and>
   canonical_request form_factory (json_dumps (PDict limit_only))
     = spec_canonical_request ''POST'' ''/'' []
         (''content-type:multipart/form-data'' @ [CHR 0x0A]
          @ ''host:cvm.tencentcloudapi.com'' @ [CHR 0x0A])
         ''content-type;host'' (hashed_payload limit_only) \<and>
   transmitted_body form_factory limit_only (world_at 1700000000)
     \<noteq> Inr (hashed_payload limit_only)"
proof -
  have ok: "timestamp_ok (timestamp_read (world_at 1700000000))"
    by (simp only: timestamp_read_whole timestamp_ok_1700000000)
  have ct: "content_type form_factory \<noteq> ''application/json''"
    by (simp add: content_type_form_factory)
  have ne: "limit_only \<noteq> []"
    by (simp add: limit_only_def)
  have t: "transmitted_body form_factory limit_only (world_at 1700000000)
             = Inr (encode_utf8 ''Limit=10'')"
    by (simp add: transmitted_body_data [OF ok ct] urlencode_limit_only ne)
  have a: "header_value ''Authorization''
     (map_sum id post_headers (fst (send_request form_factory limit_only (world_at 1700000000))))
     = Some (spec_authorization ''TC3-HMAC-SHA256'' ''AKIDEXAMPLE''
               ''2023-11-14/cvm/tc3_request'' ''content-type;host''
               (signature form_factory 1700000000 ''2023-11-14''
                  (json_dumps (PDict limit_only))))"
    by (simp add: authorization_of_post_call [OF ok] timestamp_read_whole utc_date_1700000000
        credential_scope_def form_factory_def subclass_init_def init_def)
  have c: "canonical_request form_factory (json_dumps (PDict limit_only))
     = spec_canonical_request ''POST'' ''/'' []
         (''content-type:multipart/form-data'' @ [CHR 0x0A]
          @ ''host:cvm.tencentcloudapi.com'' @ [CHR 0x0A])
         ''content-type;host'' (hashed_payload limit_only)"
    unfolding canonical_request_hashes_json
    by (simp add: canonical_headers_def form_factory_def subclass_init_def init_def)
  have n: "transmitted_body form_factory limit_only (world_at 1700000000)
             \<noteq> Inr (hashed_payload limit_only)"
    by (rule data_body_never_hashed_payload [OF ok ct])
  from t hashed_payload_limit_only a c n show ?thesis by blast
qed

end
